theory Spec2Isabelle
  imports Complex_Main
begin

section \<open>Python values, errors and the process environment\<close>

text \<open>
  The engine of \<^verbatim>\<open>src/backend/game/engine.py\<close> is a class of static methods over
  numbers, strings and dictionaries. Python's \<^verbatim>\<open>int\<close> is \<^typ>\<open>int\<close>; Python's
  \<^verbatim>\<open>float\<close> is idealised as \<^typ>\<open>real\<close> (exact arithmetic: no rounding error, no
  \<^verbatim>\<open>inf\<close>, no \<^verbatim>\<open>nan\<close>); \<^verbatim>\<open>str\<close> is \<^typ>\<open>string\<close>, the UTF-8 bytes of the
  text. Every exception the modelled code can raise is a value of \<open>py_error\<close>.

  Under this idealisation a returned float is the model's real before its rounding to a
  double. The two formatters of the engine (\<^verbatim>\<open>format_number\<close>, \<^verbatim>\<open>format_time\<close>) print
  digits of rounded quotients and products (\<^verbatim>\<open>format_number(1050)\<close> is \<^verbatim>\<open>1.1K\<close>, from the
  double of \<^verbatim>\<open>1050 / 1000\<close>), which exact arithmetic does not give; they are not
  modelled.
\<close>

datatype py_error = KeyError | TypeError | ZeroDivisionError

text \<open>
  The values a dictionary read from the database can hold: a row of SQLite gives
  \<^verbatim>\<open>int\<close>, \<^verbatim>\<open>float\<close>, \<^verbatim>\<open>str\<close> or \<^verbatim>\<open>None\<close> (for NULL).
\<close>

datatype pyval = PyInt int | PyFloat real | PyStr string | PyNone

type_synonym pydict = "string \<rightharpoonup> pyval"

text \<open>\<^verbatim>\<open>d.get(key, default)\<close>\<close>

definition dict_get :: "pydict \<Rightarrow> string \<Rightarrow> pyval \<Rightarrow> pyval" where
  "dict_get d k dflt = (case d k of None \<Rightarrow> dflt | Some v \<Rightarrow> v)"

text \<open>\<^verbatim>\<open>d[key]\<close>, which raises \<^verbatim>\<open>KeyError\<close> on a missing key.\<close>

definition dict_item :: "pydict \<Rightarrow> string \<Rightarrow> py_error + pyval" where
  "dict_item d k = (case d k of None \<Rightarrow> Inl KeyError | Some v \<Rightarrow> Inr v)"

text \<open>
  \<^verbatim>\<open>a * b\<close>: numbers multiply (the result is a float as soon as one factor is), a
  string times an int is the repeated string, everything else is a \<^verbatim>\<open>TypeError\<close>.
\<close>

fun py_mul :: "pyval \<Rightarrow> pyval \<Rightarrow> py_error + pyval" where
  "py_mul (PyInt a) (PyInt b) = Inr (PyInt (a * b))"
| "py_mul (PyInt a) (PyFloat b) = Inr (PyFloat (real_of_int a * b))"
| "py_mul (PyFloat a) (PyInt b) = Inr (PyFloat (a * real_of_int b))"
| "py_mul (PyFloat a) (PyFloat b) = Inr (PyFloat (a * b))"
| "py_mul (PyStr s) (PyInt n) = Inr (PyStr (concat (replicate (nat n) s)))"
| "py_mul (PyInt n) (PyStr s) = Inr (PyStr (concat (replicate (nat n) s)))"
| "py_mul _ _ = Inl TypeError"

text \<open>\<^verbatim>\<open>a + b\<close>: numbers add, strings concatenate, everything else is a \<^verbatim>\<open>TypeError\<close>.\<close>

fun py_add :: "pyval \<Rightarrow> pyval \<Rightarrow> py_error + pyval" where
  "py_add (PyInt a) (PyInt b) = Inr (PyInt (a + b))"
| "py_add (PyInt a) (PyFloat b) = Inr (PyFloat (real_of_int a + b))"
| "py_add (PyFloat a) (PyInt b) = Inr (PyFloat (a + real_of_int b))"
| "py_add (PyFloat a) (PyFloat b) = Inr (PyFloat (a + b))"
| "py_add (PyStr s) (PyStr t) = Inr (PyStr (s @ t))"
| "py_add _ _ = Inl TypeError"

text \<open>
  Strings compare lexicographically by code point, which on UTF-8 is the
  lexicographic order of the bytes.
\<close>

fun str_ge :: "string \<Rightarrow> string \<Rightarrow> bool" where
  "str_ge _ [] = True"
| "str_ge [] (y # ys) = False"
| "str_ge (x # xs) (y # ys) =
     (if (of_char y :: nat) < of_char x then True
      else if (of_char x :: nat) < of_char y then False
      else str_ge xs ys)"

text \<open>
  \<^verbatim>\<open>a >= b\<close>: numbers compare by value (int against float exactly), strings
  lexicographically, everything else is a \<^verbatim>\<open>TypeError\<close>.
\<close>

fun py_ge :: "pyval \<Rightarrow> pyval \<Rightarrow> py_error + bool" where
  "py_ge (PyInt a) (PyInt b) = Inr (b \<le> a)"
| "py_ge (PyInt a) (PyFloat b) = Inr (b \<le> real_of_int a)"
| "py_ge (PyFloat a) (PyInt b) = Inr (real_of_int b \<le> a)"
| "py_ge (PyFloat a) (PyFloat b) = Inr (b \<le> a)"
| "py_ge (PyStr s) (PyStr t) = Inr (str_ge s t)"
| "py_ge _ _ = Inl TypeError"

text \<open>The numeric reading of a value (0 for a value that is no number).\<close>

fun num_val :: "pyval \<Rightarrow> real" where
  "num_val (PyInt a) = real_of_int a"
| "num_val (PyFloat a) = a"
| "num_val _ = 0"

fun is_num :: "pyval \<Rightarrow> bool" where
  "is_num (PyInt a) = True"
| "is_num (PyFloat a) = True"
| "is_num _ = False"

text \<open>
  \<^verbatim>\<open>src/backend/config/settings.py\<close>: the game settings of the global
  \<^verbatim>\<open>settings\<close> object, which the environment (\<^verbatim>\<open>.env\<close>) can override.
\<close>

record Settings =
  INITIAL_INCOME_PER_HOUR :: int
  INITIAL_GUESTS_PER_HOUR :: int
  OFFLINE_INCOME_MAX_HOURS :: int

definition default_settings :: Settings where
  "default_settings =
     \<lparr>INITIAL_INCOME_PER_HOUR = 10, INITIAL_GUESTS_PER_HOUR = 2, OFFLINE_INCOME_MAX_HOURS = 24\<rparr>"

text \<open>
  What a call of the engine can read beside its arguments: the wall clock behind
  \<^verbatim>\<open>datetime.now()\<close> and the global settings. A \<^verbatim>\<open>datetime\<close> is its number of
  microseconds since a fixed origin, a \<^verbatim>\<open>timedelta\<close> a number of microseconds.
\<close>

type_synonym datetime = int
type_synonym timedelta = int

record env =
  clock :: datetime
  settings :: Settings

text \<open>\<^verbatim>\<open>timedelta.total_seconds()\<close>\<close>

definition total_seconds :: "timedelta \<Rightarrow> real" where
  "total_seconds td = real_of_int td / 10 ^ 6"

text \<open>Python's \<^verbatim>\<open>min(a, b)\<close>: the first argument unless the second is smaller.\<close>

definition py_min :: "real \<Rightarrow> real \<Rightarrow> real" where
  "py_min a b = (if b < a then b else a)"

section \<open>The engine\<close>

subsection \<open>Offline income\<close>

text \<open>
  \<^verbatim>\<open>GameEngine.calculate_offline_income(income_per_hour, last_collected, max_hours=None)\<close>
  reads the clock itself and takes the default of \<^verbatim>\<open>max_hours\<close> from the settings.
\<close>

definition calculate_offline_income ::
  "env \<Rightarrow> real \<Rightarrow> datetime \<Rightarrow> int option \<Rightarrow> real \<times> real" where
  "calculate_offline_income e income_per_hour last_collected max_hours =
     (let max_hours' = (case max_hours of
                          None \<Rightarrow> OFFLINE_INCOME_MAX_HOURS (settings e)
                        | Some m \<Rightarrow> m);
          now = clock e;
          time_passed = now - last_collected;
          hours = total_seconds time_passed / 3600;
          hours' = py_min hours (real_of_int max_hours');
          income = income_per_hour * hours'
      in (income, hours'))"

text \<open>
  The two quantities the specification of the accrual speaks of: the hours elapsed
  between \<^verbatim>\<open>last_collected\<close> and the clock, and the cap in force.
\<close>

definition elapsed_hours :: "env \<Rightarrow> datetime \<Rightarrow> real" where
  "elapsed_hours e last_collected = real_of_int (clock e - last_collected) / 10 ^ 6 / 3600"

definition cap_hours :: "env \<Rightarrow> int option \<Rightarrow> real" where
  "cap_hours e max_hours =
     real_of_int (case max_hours of None \<Rightarrow> OFFLINE_INCOME_MAX_HOURS (settings e) | Some m \<Rightarrow> m)"

subsection \<open>Upgrade cost\<close>



subsection \<open>Total income\<close>

text \<open>
  The loop of \<^verbatim>\<open>GameEngine.calculate_total_income(base_income, upgrades)\<close> over the
  list of upgrade dictionaries, with its two running totals; an exception of
  \<^verbatim>\<open>*\<close> or \<^verbatim>\<open>+=\<close> leaves the loop.
\<close>

fun total_income_loop :: "pydict list \<Rightarrow> pyval \<Rightarrow> pyval \<Rightarrow> py_error + (pyval \<times> pyval)" where
  "total_income_loop [] total_income_bonus total_guests_bonus =
     Inr (total_income_bonus, total_guests_bonus)"
| "total_income_loop (upgrade # rest) total_income_bonus total_guests_bonus =
     (let level = dict_get upgrade ''level'' (PyInt 0);
          income_bonus = dict_get upgrade ''income_bonus'' (PyInt 0);
          guests_bonus = dict_get upgrade ''guests_bonus'' (PyInt 0)
      in case py_mul income_bonus level of
           Inl err \<Rightarrow> Inl err
         | Inr x \<Rightarrow>
        (case py_add total_income_bonus x of
           Inl err \<Rightarrow> Inl err
         | Inr total_income_bonus' \<Rightarrow>
        (case py_mul guests_bonus level of
           Inl err \<Rightarrow> Inl err
         | Inr y \<Rightarrow>
        (case py_add total_guests_bonus y of
           Inl err \<Rightarrow> Inl err
         | Inr total_guests_bonus' \<Rightarrow>
             total_income_loop rest total_income_bonus' total_guests_bonus'))))"

text \<open>
  The base of the guests is not an argument: it is read from the settings
  (\<^verbatim>\<open>settings.INITIAL_GUESTS_PER_HOUR\<close>).
\<close>

definition calculate_total_income ::
  "Settings \<Rightarrow> pyval \<Rightarrow> pydict list \<Rightarrow> py_error + (pyval \<times> pyval)" where
  "calculate_total_income s base_income upgrades =
     (case total_income_loop upgrades (PyInt 0) (PyInt 0) of
        Inl err \<Rightarrow> Inl err
      | Inr (total_income_bonus, total_guests_bonus) \<Rightarrow>
     (case py_add base_income total_income_bonus of
        Inl err \<Rightarrow> Inl err
      | Inr income_per_hour \<Rightarrow>
     (case py_add (PyInt (INITIAL_GUESTS_PER_HOUR s)) total_guests_bonus of
        Inl err \<Rightarrow> Inl err
      | Inr guests_per_hour \<Rightarrow> Inr (income_per_hour, guests_per_hour))))"

text \<open>
  The sums of the specification, over the numeric reading of the three fields (a field
  that is absent reads as its default 0).
\<close>

definition upgrade_field :: "pydict \<Rightarrow> string \<Rightarrow> real" where
  "upgrade_field upgrade k = num_val (dict_get upgrade k (PyInt 0))"

definition income_bonus_sum :: "pydict list \<Rightarrow> real" where
  "income_bonus_sum upgrades =
     sum_list (map (\<lambda>u. upgrade_field u ''level'' * upgrade_field u ''income_bonus'') upgrades)"

definition guests_bonus_sum :: "pydict list \<Rightarrow> real" where
  "guests_bonus_sum upgrades =
     sum_list (map (\<lambda>u. upgrade_field u ''level'' * upgrade_field u ''guests_bonus'') upgrades)"

text \<open>An upgrade whose three fields, where present, are numbers.\<close>

definition numeric_upgrade :: "pydict \<Rightarrow> bool" where
  "numeric_upgrade u =
     (is_num (dict_get u ''level'' (PyInt 0)) \<and>
      is_num (dict_get u ''income_bonus'' (PyInt 0)) \<and>
      is_num (dict_get u ''guests_bonus'' (PyInt 0)))"

subsection \<open>Minigame reward\<close>

text \<open>
  \<^verbatim>\<open>round(x, ndigits)\<close> on a float rounds the exact value to the nearest multiple of
  \<open>10 ^ - ndigits\<close>, a tie to the even one.
\<close>

definition round_half_even :: "real \<Rightarrow> int" where
  "round_half_even x =
     (let f = \<lfloor>x\<rfloor>; d = x - real_of_int f
      in if d < 1 / 2 then f
         else if 1 / 2 < d then f + 1
         else if even f then f else f + 1)"

definition py_round :: "real \<Rightarrow> nat \<Rightarrow> real" where
  "py_round x ndigits = real_of_int (round_half_even (x * 10 ^ ndigits)) / 10 ^ ndigits"

definition multipliers :: "string \<rightharpoonup> real" where
  "multipliers = [''burger_flip'' \<mapsto> 0.5, ''speed_tap'' \<mapsto> 0.3, ''memory'' \<mapsto> 1.0]"

text \<open>\<^verbatim>\<open>GameEngine.calculate_minigame_reward(score, game_type)\<close>\<close>

definition calculate_minigame_reward :: "int \<Rightarrow> string \<Rightarrow> real" where
  "calculate_minigame_reward score game_type =
     (let multiplier = (case multipliers game_type of None \<Rightarrow> 0.5 | Some m \<Rightarrow> m);
          reward = real_of_int score * multiplier;
          reward' = (if score > 50 then reward * 1.5
                     else if score > 100 then reward * 2.0
                     else reward)
      in py_round reward' 2)"

text \<open>
  The per-point multiplier and the bracket bonus as the specification words them.
\<close>

definition spec_multiplier :: "string \<Rightarrow> real" where
  "spec_multiplier game_type =
     (if game_type = ''burger_flip'' then 0.5
      else if game_type = ''speed_tap'' then 0.3
      else if game_type = ''memory'' then 1.0
      else 0.5)"

definition spec_bonus :: "int \<Rightarrow> real" where
  "spec_bonus score = (if score > 50 then 1.5 else 1)"

subsection \<open>Achievement conditions\<close>

text \<open>\<^verbatim>\<open>GameEngine.check_achievement_progress(progress_data, achievement)\<close>\<close>

definition check_achievement_progress :: "pydict \<Rightarrow> pydict \<Rightarrow> py_error + bool" where
  "check_achievement_progress progress_data achievement =
     (case dict_item achievement ''condition_type'' of
        Inl err \<Rightarrow> Inl err
      | Inr condition_type \<Rightarrow>
     (case dict_item achievement ''condition_value'' of
        Inl err \<Rightarrow> Inl err
      | Inr condition_value \<Rightarrow>
          if condition_type = PyStr ''total_earned'' then
            py_ge (dict_get progress_data ''total_earned'' (PyInt 0)) condition_value
          else if condition_type = PyStr ''upgrades_count'' then
            py_ge (dict_get progress_data ''upgrades_count'' (PyInt 0)) condition_value
          else if condition_type = PyStr ''guests_served'' then
            Inr False
          else Inr False))"

subsection \<open>The engine's operations as one interface\<close>




section \<open>The leaderboard query\<close>

text \<open>
  \<^verbatim>\<open>src/backend/database/db.py\<close>, \<^verbatim>\<open>Database.get_user_rank\<close>. The table
  \<^verbatim>\<open>user_progress\<close> is a list of rows, of which the query reads two columns;
  \<^verbatim>\<open>total_earned\<close> has no NOT NULL constraint, so it can be NULL (\<open>None\<close>).
\<close>

record progress_row =
  user_id :: int
  total_earned :: "real option"

text \<open>
  The scalar subquery \<^verbatim>\<open>(SELECT total_earned FROM user_progress WHERE user_id = ?)\<close>:
  the value of the first matching row, NULL when there is none.
\<close>

definition subquery_total_earned :: "progress_row list \<Rightarrow> int \<Rightarrow> real option" where
  "subquery_total_earned table uid =
     (case find (\<lambda>r. user_id r = uid) table of None \<Rightarrow> None | Some r \<Rightarrow> total_earned r)"

text \<open>
  The condition \<^verbatim>\<open>a > b\<close> of a WHERE clause: a comparison with NULL is NULL, which
  does not select the row.
\<close>

fun sql_gt :: "real option \<Rightarrow> real option \<Rightarrow> bool" where
  "sql_gt (Some a) (Some b) = (b < a)"
| "sql_gt _ _ = False"

text \<open>
  A row of a result set, as \<^verbatim>\<open>dict(row)\<close> gives it: the columns in order, each with
  its value.
\<close>

type_synonym result_row = "(string \<times> pyval) list"

text \<open>
  The result set of \<^verbatim>\<open>SELECT COUNT(*) + 1 as rank FROM user_progress WHERE
  total_earned > (...)\<close>: an aggregate without GROUP BY, so exactly one row, holding the
  column \<^verbatim>\<open>rank\<close>.
\<close>

definition rank_query :: "progress_row list \<Rightarrow> int \<Rightarrow> result_row list" where
  "rank_query table uid =
     [[(''rank'',
        PyInt (int (length (filter (\<lambda>r. sql_gt (total_earned r) (subquery_total_earned table uid))
                             table)) + 1))]]"

text \<open>\<^verbatim>\<open>Database.fetchone\<close>: the first row of the result as a dictionary, or \<^verbatim>\<open>None\<close>.\<close>

definition fetchone :: "result_row list \<Rightarrow> result_row option" where
  "fetchone rows = (case rows of [] \<Rightarrow> None | row # _ \<Rightarrow> Some row)"

text \<open>
  \<^verbatim>\<open>return result['rank'] if result else None\<close>: a dictionary is false when it is
  empty, and \<^verbatim>\<open>None\<close> is false.
\<close>

definition get_user_rank :: "progress_row list \<Rightarrow> int \<Rightarrow> py_error + pyval" where
  "get_user_rank table uid =
     (case fetchone (rank_query table uid) of
        None \<Rightarrow> Inr PyNone
      | Some result \<Rightarrow>
          if result = [] then Inr PyNone else dict_item (map_of result) ''rank'')"

section \<open>Properties of the offline income\<close>

text \<open>
  What \<open>calculate_offline_income\<close> returns, in the vocabulary of the specification: the
  hours are the smaller of the elapsed hours and the cap, the income is the rate times
  those hours. Nothing here asks the elapsed hours to be positive.
\<close>

lemma offline_income_eq:
  "calculate_offline_income e iph lc mh =
     (iph * min (elapsed_hours e lc) (cap_hours e mh), min (elapsed_hours e lc) (cap_hours e mh))"
  by (simp add: calculate_offline_income_def elapsed_hours_def cap_hours_def total_seconds_def
        py_min_def min_def Let_def)

text \<open>
  Claim C9. For a rate \<open>income_per_hour \<ge> 0\<close> and a \<open>last_collected\<close> that is not after the
  clock (elapsed hours \<open>\<ge> 0\<close>), and every \<open>max_hours\<close> (given, or the configured default),
  the call returns the hours \<open>min elapsed cap\<close> and the income \<open>income_per_hour * min
  elapsed cap\<close>. The income does not decrease when the elapsed time grows under the same
  cap, and every elapsed time at or beyond the cap gives the same income.
\<close>

theorem offline_income_capped:
  fixes income_per_hour :: real
  assumes "0 \<le> income_per_hour" and "0 \<le> elapsed_hours e last_collected"
  shows "calculate_offline_income e income_per_hour last_collected max_hours =
           (income_per_hour * min (elapsed_hours e last_collected) (cap_hours e max_hours),
            min (elapsed_hours e last_collected) (cap_hours e max_hours))
       \<and> (\<forall>e' last_collected'.
             cap_hours e' max_hours = cap_hours e max_hours \<and>
             elapsed_hours e last_collected \<le> elapsed_hours e' last_collected' \<longrightarrow>
             fst (calculate_offline_income e income_per_hour last_collected max_hours)
               \<le> fst (calculate_offline_income e' income_per_hour last_collected' max_hours))
       \<and> (\<forall>e' last_collected'.
             cap_hours e' max_hours = cap_hours e max_hours \<and>
             cap_hours e max_hours \<le> elapsed_hours e last_collected \<and>
             cap_hours e max_hours \<le> elapsed_hours e' last_collected' \<longrightarrow>
             fst (calculate_offline_income e' income_per_hour last_collected' max_hours)
               = fst (calculate_offline_income e income_per_hour last_collected max_hours))"
proof (intro conjI allI impI)
  show "calculate_offline_income e income_per_hour last_collected max_hours =
           (income_per_hour * min (elapsed_hours e last_collected) (cap_hours e max_hours),
            min (elapsed_hours e last_collected) (cap_hours e max_hours))"
    by (rule offline_income_eq)
next
  fix e' last_collected'
  assume h: "cap_hours e' max_hours = cap_hours e max_hours \<and>
             elapsed_hours e last_collected \<le> elapsed_hours e' last_collected'"
  then have "min (elapsed_hours e last_collected) (cap_hours e max_hours)
               \<le> min (elapsed_hours e' last_collected') (cap_hours e' max_hours)"
    by (simp add: min_def)
  then show "fst (calculate_offline_income e income_per_hour last_collected max_hours)
               \<le> fst (calculate_offline_income e' income_per_hour last_collected' max_hours)"
    using assms(1) by (simp add: offline_income_eq mult_left_mono)
next
  fix e' last_collected'
  assume h: "cap_hours e' max_hours = cap_hours e max_hours \<and>
             cap_hours e max_hours \<le> elapsed_hours e last_collected \<and>
             cap_hours e max_hours \<le> elapsed_hours e' last_collected'"
  then have "min (elapsed_hours e' last_collected') (cap_hours e' max_hours)
               = min (elapsed_hours e last_collected) (cap_hours e max_hours)"
    by (simp add: min_def)
  then show "fst (calculate_offline_income e' income_per_hour last_collected' max_hours)
               = fst (calculate_offline_income e income_per_hour last_collected max_hours)"
    by (simp add: offline_income_eq)
qed

theorem offline_income_capped_witness:
  "(0::real) \<le> 10
   \<and> 0 \<le> elapsed_hours \<lparr>clock = 7200000000, settings = default_settings\<rparr> 0
   \<and> calculate_offline_income \<lparr>clock = 7200000000, settings = default_settings\<rparr> 10 0 None = (20, 2)
   \<and> calculate_offline_income \<lparr>clock = 7200000000, settings = default_settings\<rparr> 10 0 (Some 1) = (10, 1)
   \<and> fst (calculate_offline_income \<lparr>clock = 7200000000, settings = default_settings\<rparr> 10 0 None)
        \<le> fst (calculate_offline_income \<lparr>clock = 10800000000, settings = default_settings\<rparr> 10 0 None)"
proof -
  let ?e = "\<lparr>clock = 7200000000, settings = default_settings\<rparr>"
  let ?e' = "\<lparr>clock = 10800000000, settings = default_settings\<rparr>"
  have a: "(0::real) \<le> 10" by simp
  have b: "0 \<le> elapsed_hours ?e 0" by (simp add: elapsed_hours_def)
  have el: "elapsed_hours ?e 0 = 2" "elapsed_hours ?e' 0 = 3"
    by (simp_all add: elapsed_hours_def)
  have cp: "cap_hours ?e None = 24" "cap_hours ?e' None = 24" "cap_hours ?e (Some 1) = 1"
    by (simp_all add: cap_hours_def default_settings_def)
  note t = offline_income_capped [OF a b]
  from t [of None] have 1: "calculate_offline_income ?e 10 0 None = (20, 2)"
    by (simp add: el cp)
  from t [of "Some 1"] have 2: "calculate_offline_income ?e 10 0 (Some 1) = (10, 1)"
    by (simp add: el cp)
  from t [of None] have "cap_hours ?e' None = cap_hours ?e None \<and>
             elapsed_hours ?e 0 \<le> elapsed_hours ?e' 0 \<longrightarrow>
             fst (calculate_offline_income ?e 10 0 None)
               \<le> fst (calculate_offline_income ?e' 10 0 None)"
    by blast
  then have 3: "fst (calculate_offline_income ?e 10 0 None)
               \<le> fst (calculate_offline_income ?e' 10 0 None)"
    by (simp add: el cp)
  from a b 1 2 3 show ?thesis by blast
qed

text \<open>
  Claim C1 asks for an income of 0 and 0 hours when \<open>last_collected\<close> lies in the future.
  The method has no lower clamp: with the clock at 0, a collection time one hour ahead and
  a rate of 10 it returns the income \<open>- 10\<close> for \<open>- 1\<close> hours.
\<close>

theorem offline_income_future_counterexample:
  "elapsed_hours \<lparr>clock = 0, settings = default_settings\<rparr> 3600000000 = - 1
   \<and> calculate_offline_income \<lparr>clock = 0, settings = default_settings\<rparr> 10 3600000000 None = (- 10, - 1)"
  by (simp add: elapsed_hours_def calculate_offline_income_def total_seconds_def py_min_def
        default_settings_def)

text \<open>
  Claim C1 as the code has it: for a rate \<open>income_per_hour \<ge> 0\<close> and a \<open>last_collected\<close> in
  the future of the clock (elapsed hours \<open>< 0\<close>), the call returns the hours \<open>min elapsed
  cap\<close>, which are negative, and the income \<open>income_per_hour *\<close> those hours, which is at most
  0 and is negative as soon as the rate is positive.
\<close>

theorem offline_income_future_unclamped:
  fixes income_per_hour :: real
  assumes "0 \<le> income_per_hour" and "elapsed_hours e last_collected < 0"
  shows "calculate_offline_income e income_per_hour last_collected max_hours =
           (income_per_hour * min (elapsed_hours e last_collected) (cap_hours e max_hours),
            min (elapsed_hours e last_collected) (cap_hours e max_hours))
       \<and> snd (calculate_offline_income e income_per_hour last_collected max_hours) < 0
       \<and> fst (calculate_offline_income e income_per_hour last_collected max_hours) \<le> 0
       \<and> (0 < income_per_hour \<longrightarrow>
            fst (calculate_offline_income e income_per_hour last_collected max_hours) < 0)"
proof -
  have m: "min (elapsed_hours e last_collected) (cap_hours e max_hours) < 0"
    using assms(2) by (simp add: min_def)
  show ?thesis
    using m assms(1) by (simp add: offline_income_eq mult_le_0_iff mult_less_0_iff)
qed

theorem offline_income_future_unclamped_witness:
  "(0::real) \<le> 10
   \<and> elapsed_hours \<lparr>clock = 0, settings = default_settings\<rparr> 1800000000 < 0
   \<and> calculate_offline_income \<lparr>clock = 0, settings = default_settings\<rparr> 10 1800000000 (Some 24)
       = (- 5, - (1 / 2))
   \<and> fst (calculate_offline_income \<lparr>clock = 0, settings = default_settings\<rparr> 10 1800000000 (Some 24)) < 0"
proof -
  let ?e = "\<lparr>clock = 0, settings = default_settings\<rparr>"
  have a: "(0::real) \<le> 10" by simp
  have b: "elapsed_hours ?e 1800000000 < 0" by (simp add: elapsed_hours_def)
  have el: "elapsed_hours ?e 1800000000 = - (1 / 2)" by (simp add: elapsed_hours_def)
  have cp: "cap_hours ?e (Some 24) = 24" by (simp add: cap_hours_def)
  note t = offline_income_future_unclamped [OF a b, of "Some 24"]
  from t have 1: "calculate_offline_income ?e 10 1800000000 (Some 24) = (- 5, - (1 / 2))"
    by (simp add: el cp)
  from t a have 2: "fst (calculate_offline_income ?e 10 1800000000 (Some 24)) < 0"
    by linarith
  from a b 1 2 show ?thesis by blast
qed

section \<open>Properties of the upgrade cost\<close>











section \<open>Properties of the total income\<close>

text \<open>On numbers, \<open>py_mul\<close> and \<open>py_add\<close> return the product and the sum.\<close>

lemma py_mul_num:
  assumes "is_num a" and "is_num b"
  shows "\<exists>c. py_mul a b = Inr c \<and> is_num c \<and> num_val c = num_val a * num_val b"
  using assms by (cases a; cases b) simp_all

lemma py_add_num:
  assumes "is_num a" and "is_num b"
  shows "\<exists>c. py_add a b = Inr c \<and> is_num c \<and> num_val c = num_val a + num_val b"
  using assms by (cases a; cases b) simp_all

text \<open>
  The invariant of the loop: started from numeric totals on numeric upgrades, it ends
  without an exception, and each total has grown by the sum over the list.
\<close>

lemma total_income_loop_sums:
  assumes "\<forall>u\<in>set upgrades. numeric_upgrade u" and "is_num ti" and "is_num tg"
  shows "\<exists>ti' tg'. total_income_loop upgrades ti tg = Inr (ti', tg')
           \<and> is_num ti' \<and> is_num tg'
           \<and> num_val ti' = num_val ti + income_bonus_sum upgrades
           \<and> num_val tg' = num_val tg + guests_bonus_sum upgrades"
  using assms
proof (induction upgrades arbitrary: ti tg)
  case Nil
  then show ?case by (simp add: income_bonus_sum_def guests_bonus_sum_def)
next
  case (Cons u rest)
  let ?level = "dict_get u ''level'' (PyInt 0)"
  let ?ib = "dict_get u ''income_bonus'' (PyInt 0)"
  let ?gb = "dict_get u ''guests_bonus'' (PyInt 0)"
  from Cons.prems(1) have nu: "is_num ?level" "is_num ?ib" "is_num ?gb"
    by (simp_all add: numeric_upgrade_def)
  from py_mul_num [OF nu(2) nu(1)] obtain x
    where x: "py_mul ?ib ?level = Inr x" "is_num x" "num_val x = num_val ?ib * num_val ?level"
    by blast
  from py_add_num [OF Cons.prems(2) x(2)] obtain ti1
    where ti1: "py_add ti x = Inr ti1" "is_num ti1" "num_val ti1 = num_val ti + num_val x"
    by blast
  from py_mul_num [OF nu(3) nu(1)] obtain y
    where y: "py_mul ?gb ?level = Inr y" "is_num y" "num_val y = num_val ?gb * num_val ?level"
    by blast
  from py_add_num [OF Cons.prems(3) y(2)] obtain tg1
    where tg1: "py_add tg y = Inr tg1" "is_num tg1" "num_val tg1 = num_val tg + num_val y"
    by blast
  from Cons.prems(1) have rest: "\<forall>u\<in>set rest. numeric_upgrade u" by simp
  from Cons.IH [OF rest ti1(2) tg1(2)] obtain ti' tg'
    where r: "total_income_loop rest ti1 tg1 = Inr (ti', tg')" "is_num ti'" "is_num tg'"
      "num_val ti' = num_val ti1 + income_bonus_sum rest"
      "num_val tg' = num_val tg1 + guests_bonus_sum rest"
    by blast
  have step: "total_income_loop (u # rest) ti tg = total_income_loop rest ti1 tg1"
    by (simp add: x(1) ti1(1) y(1) tg1(1))
  have "num_val ti' = num_val ti + income_bonus_sum (u # rest)"
    by (simp add: r(4) ti1(3) x(3) income_bonus_sum_def upgrade_field_def)
  moreover have "num_val tg' = num_val tg + guests_bonus_sum (u # rest)"
    by (simp add: r(5) tg1(3) y(3) guests_bonus_sum_def upgrade_field_def)
  ultimately show ?case using step r(1,2,3) by simp
qed

text \<open>
  Claim C7. For every numeric base income and every list of upgrades whose level, income
  bonus and guests bonus are numbers, the call returns, with the income per hour
  \<open>base_income + \<Sum> level * income_bonus\<close> and the guests per hour \<open>base_guests + \<Sum> level *
  guests_bonus\<close>, where the base of the guests is the setting \<open>INITIAL_GUESTS_PER_HOUR\<close>, of
  any value. With the base income 10, 2 base guests and the two upgrades of the
  specification's example it returns \<open>(12.0, 5)\<close>.
\<close>

theorem total_income_sums:
  assumes "is_num base_income" and "\<forall>u\<in>set upgrades. numeric_upgrade u"
  shows "(\<exists>income_per_hour guests_per_hour.
            calculate_total_income s base_income upgrades = Inr (income_per_hour, guests_per_hour)
            \<and> num_val income_per_hour = num_val base_income + income_bonus_sum upgrades
            \<and> num_val guests_per_hour
                 = real_of_int (INITIAL_GUESTS_PER_HOUR s) + guests_bonus_sum upgrades)
       \<and> calculate_total_income (s\<lparr>INITIAL_GUESTS_PER_HOUR := 2\<rparr>) (PyInt 10)
            [[''level'' \<mapsto> PyInt 2, ''income_bonus'' \<mapsto> PyFloat 1.0, ''guests_bonus'' \<mapsto> PyInt 0],
             [''level'' \<mapsto> PyInt 1, ''income_bonus'' \<mapsto> PyInt 0, ''guests_bonus'' \<mapsto> PyInt 3]]
           = Inr (PyFloat 12.0, PyInt 5)"
proof
  have z: "is_num (PyInt 0)" by simp
  from total_income_loop_sums [OF assms(2) z z] obtain ti tg
    where l: "total_income_loop upgrades (PyInt 0) (PyInt 0) = Inr (ti, tg)"
      "is_num ti" "is_num tg"
      "num_val ti = income_bonus_sum upgrades" "num_val tg = guests_bonus_sum upgrades"
    by auto
  from py_add_num [OF assms(1) l(2)] obtain iph
    where i: "py_add base_income ti = Inr iph" "num_val iph = num_val base_income + num_val ti"
    by blast
  have g0: "is_num (PyInt (INITIAL_GUESTS_PER_HOUR s))" by simp
  from py_add_num [OF g0 l(3)] obtain gph
    where g: "py_add (PyInt (INITIAL_GUESTS_PER_HOUR s)) tg = Inr gph"
      "num_val gph = num_val (PyInt (INITIAL_GUESTS_PER_HOUR s)) + num_val tg"
    by blast
  have "calculate_total_income s base_income upgrades = Inr (iph, gph)"
    by (simp add: calculate_total_income_def l(1) i(1) g(1))
  then show "\<exists>income_per_hour guests_per_hour.
            calculate_total_income s base_income upgrades = Inr (income_per_hour, guests_per_hour)
            \<and> num_val income_per_hour = num_val base_income + income_bonus_sum upgrades
            \<and> num_val guests_per_hour
                 = real_of_int (INITIAL_GUESTS_PER_HOUR s) + guests_bonus_sum upgrades"
    using i(2) g(2) l(4,5) by simp
next
  show "calculate_total_income (s\<lparr>INITIAL_GUESTS_PER_HOUR := 2\<rparr>) (PyInt 10)
            [[''level'' \<mapsto> PyInt 2, ''income_bonus'' \<mapsto> PyFloat 1.0, ''guests_bonus'' \<mapsto> PyInt 0],
             [''level'' \<mapsto> PyInt 1, ''income_bonus'' \<mapsto> PyInt 0, ''guests_bonus'' \<mapsto> PyInt 3]]
           = Inr (PyFloat 12.0, PyInt 5)"
    by (simp add: calculate_total_income_def dict_get_def)
qed

theorem total_income_sums_witness:
  "is_num (PyFloat 10)
   \<and> numeric_upgrade [''level'' \<mapsto> PyInt 3, ''income_bonus'' \<mapsto> PyFloat 1.5]
   \<and> (\<exists>income_per_hour guests_per_hour.
         calculate_total_income default_settings (PyFloat 10)
           [[''level'' \<mapsto> PyInt 3, ''income_bonus'' \<mapsto> PyFloat 1.5]]
           = Inr (income_per_hour, guests_per_hour)
         \<and> num_val income_per_hour = 29 / 2 \<and> num_val guests_per_hour = 2)"
proof -
  let ?u = "[''level'' \<mapsto> PyInt 3, ''income_bonus'' \<mapsto> PyFloat 1.5]"
  have a: "is_num (PyFloat 10)" by simp
  have n: "numeric_upgrade ?u" by (simp add: numeric_upgrade_def dict_get_def)
  then have b: "\<forall>u\<in>set [?u]. numeric_upgrade u" by simp
  have s: "income_bonus_sum [?u] = 9 / 2" "guests_bonus_sum [?u] = 0"
    by (simp_all add: income_bonus_sum_def guests_bonus_sum_def upgrade_field_def dict_get_def)
  have g: "INITIAL_GUESTS_PER_HOUR default_settings = 2" by (simp add: default_settings_def)
  from total_income_sums [OF a b, of default_settings] obtain i gph
    where r: "calculate_total_income default_settings (PyFloat 10) [?u] = Inr (i, gph)"
      "num_val i = num_val (PyFloat 10) + income_bonus_sum [?u]"
      "num_val gph = real_of_int (INITIAL_GUESTS_PER_HOUR default_settings) + guests_bonus_sum [?u]"
    by blast
  have "num_val i = 29 / 2" using r(2) s(1) by simp
  moreover have "num_val gph = 2" using r(3) s(2) g by simp
  ultimately have "\<exists>income_per_hour guests_per_hour.
         calculate_total_income default_settings (PyFloat 10) [?u]
           = Inr (income_per_hour, guests_per_hour)
         \<and> num_val income_per_hour = 29 / 2 \<and> num_val guests_per_hour = 2"
    using r(1) by blast
  with a n show ?thesis by blast
qed

section \<open>Properties of the minigame reward\<close>

text \<open>The lookup in the dictionary of multipliers, with its default, as a case distinction.\<close>

lemma multipliers_lookup:
  "(case multipliers game_type of None \<Rightarrow> 0.5 | Some m \<Rightarrow> m) = spec_multiplier game_type"
  by (simp add: multipliers_def spec_multiplier_def)

text \<open>
  Claim C8. For every score and game type the reward is \<open>score * m * b\<close> rounded to two
  digits, with \<open>m\<close> the multiplier of the game type (0.5 for an unknown one) and \<open>b\<close> 1.5 for
  a score above 50 and 1 otherwise; a score above 100 gets the factor 1.5 too, never 2.0;
  and a score of 60 at \<^verbatim>\<open>burger_flip\<close> is rewarded 45.
\<close>

theorem minigame_reward_formula:
  "calculate_minigame_reward score game_type
     = py_round (real_of_int score * spec_multiplier game_type * spec_bonus score) 2
   \<and> (100 < score \<longrightarrow>
        calculate_minigame_reward score game_type
          = py_round (real_of_int score * spec_multiplier game_type * 1.5) 2)
   \<and> calculate_minigame_reward 60 ''burger_flip'' = 45"
proof (intro conjI impI)
  show f: "calculate_minigame_reward score game_type
     = py_round (real_of_int score * spec_multiplier game_type * spec_bonus score) 2"
    for score game_type
    by (simp add: calculate_minigame_reward_def multipliers_lookup spec_bonus_def Let_def)
  show "calculate_minigame_reward score game_type
          = py_round (real_of_int score * spec_multiplier game_type * 1.5) 2"
    if "100 < score"
    using that by (simp add: f spec_bonus_def)
  show "calculate_minigame_reward 60 ''burger_flip'' = 45"
    by (simp add: f spec_bonus_def spec_multiplier_def py_round_def round_half_even_def)
qed

theorem minigame_reward_formula_witness:
  "(100::int) < 120 \<and> calculate_minigame_reward 120 ''memory'' = 180
   \<and> calculate_minigame_reward 7 ''speed_tap'' = 21 / 10"
proof -
  have a: "(100::int) < 120" by simp
  from minigame_reward_formula [of 120 "''memory''"] a
  have "calculate_minigame_reward 120 ''memory''
          = py_round (real_of_int 120 * spec_multiplier ''memory'' * 1.5) 2"
    by blast
  then have 1: "calculate_minigame_reward 120 ''memory'' = 180"
    by (simp add: spec_multiplier_def py_round_def round_half_even_def)
  from minigame_reward_formula [of 7 "''speed_tap''"]
  have "calculate_minigame_reward 7 ''speed_tap''
     = py_round (real_of_int 7 * spec_multiplier ''speed_tap'' * spec_bonus 7) 2"
    by blast
  then have 2: "calculate_minigame_reward 7 ''speed_tap'' = 21 / 10"
    by (simp add: spec_multiplier_def spec_bonus_def py_round_def round_half_even_def)
  from a 1 2 show ?thesis by blast
qed

section \<open>Properties of the achievement conditions\<close>

text \<open>
  Claim C3 asks that a \<^verbatim>\<open>guests_served\<close> condition yields an outcome of its own, which a
  caller can tell from "not yet met". The method returns a \<^verbatim>\<open>bool\<close>, and for such an
  achievement it returns \<^verbatim>\<open>False\<close>, the very value it returns for a \<^verbatim>\<open>total_earned\<close>
  threshold of 1000 that earnings of 150 have not met.
\<close>

theorem guests_served_counterexample:
  "check_achievement_progress [''total_earned'' \<mapsto> PyFloat 150, ''upgrades_count'' \<mapsto> PyInt 3]
     [''condition_type'' \<mapsto> PyStr ''guests_served'', ''condition_value'' \<mapsto> PyInt 10] = Inr False
   \<and> check_achievement_progress [''total_earned'' \<mapsto> PyFloat 150, ''upgrades_count'' \<mapsto> PyInt 3]
     [''condition_type'' \<mapsto> PyStr ''total_earned'', ''condition_value'' \<mapsto> PyInt 1000] = Inr False"
  by (simp add: check_achievement_progress_def dict_item_def dict_get_def)

text \<open>
  Claim C3 as the code has it: for every progress snapshot and every achievement whose
  condition type is \<^verbatim>\<open>guests_served\<close> (and that carries a condition value), the method
  returns plain \<^verbatim>\<open>False\<close>.
\<close>

theorem guests_served_plain_false:
  assumes "achievement ''condition_type'' = Some (PyStr ''guests_served'')"
    and "achievement ''condition_value'' = Some v"
  shows "check_achievement_progress progress_data achievement = Inr False"
  using assms by (simp add: check_achievement_progress_def dict_item_def)

theorem guests_served_plain_false_witness:
  "[''condition_type'' \<mapsto> PyStr ''guests_served'', ''condition_value'' \<mapsto> PyInt 10] ''condition_type''
     = Some (PyStr ''guests_served'')
   \<and> [''condition_type'' \<mapsto> PyStr ''guests_served'', ''condition_value'' \<mapsto> PyInt 10] ''condition_value''
     = Some (PyInt 10)
   \<and> check_achievement_progress Map.empty
        [''condition_type'' \<mapsto> PyStr ''guests_served'', ''condition_value'' \<mapsto> PyInt 10] = Inr False"
proof -
  let ?a = "[''condition_type'' \<mapsto> PyStr ''guests_served'', ''condition_value'' \<mapsto> PyInt 10]"
  have a: "?a ''condition_type'' = Some (PyStr ''guests_served'')" by simp
  have b: "?a ''condition_value'' = Some (PyInt 10)" by simp
  from a b guests_served_plain_false [OF a b, of Map.empty] show ?thesis by blast
qed

text \<open>
  Claim C10. For an achievement of condition type \<^verbatim>\<open>total_earned\<close> or
  \<^verbatim>\<open>upgrades_count\<close> with a numeric condition value, when the progress snapshot lacks the
  corresponding field the method raises nothing: it compares 0 with the condition value,
  and returns \<^verbatim>\<open>True\<close> exactly when the condition value is at most 0.
\<close>

theorem missing_field_reads_zero:
  assumes "(achievement ''condition_type'' = Some (PyStr ''total_earned'')
              \<and> progress_data ''total_earned'' = None)
         \<or> (achievement ''condition_type'' = Some (PyStr ''upgrades_count'')
              \<and> progress_data ''upgrades_count'' = None)"
    and "achievement ''condition_value'' = Some v"
    and "is_num v"
  shows "check_achievement_progress progress_data achievement = Inr (num_val v \<le> 0)"
proof -
  have z: "py_ge (PyInt 0) v = Inr (num_val v \<le> 0)"
    using assms(3) by (cases v) simp_all
  from assms(1) show ?thesis
  proof
    assume "achievement ''condition_type'' = Some (PyStr ''total_earned'')
              \<and> progress_data ''total_earned'' = None"
    then show ?thesis
      using assms(2) z by (simp add: check_achievement_progress_def dict_item_def dict_get_def)
  next
    assume "achievement ''condition_type'' = Some (PyStr ''upgrades_count'')
              \<and> progress_data ''upgrades_count'' = None"
    then show ?thesis
      using assms(2) z by (simp add: check_achievement_progress_def dict_item_def dict_get_def)
  qed
qed

theorem missing_field_reads_zero_witness:
  "check_achievement_progress Map.empty
     [''condition_type'' \<mapsto> PyStr ''total_earned'', ''condition_value'' \<mapsto> PyInt 100] = Inr False
   \<and> check_achievement_progress [''total_earned'' \<mapsto> PyFloat 150]
     [''condition_type'' \<mapsto> PyStr ''upgrades_count'', ''condition_value'' \<mapsto> PyFloat 0] = Inr True"
proof -
  let ?a = "[''condition_type'' \<mapsto> PyStr ''total_earned'', ''condition_value'' \<mapsto> PyInt 100]"
  let ?b = "[''condition_type'' \<mapsto> PyStr ''upgrades_count'', ''condition_value'' \<mapsto> PyFloat 0]"
  let ?p = "[''total_earned'' \<mapsto> PyFloat 150]"
  have a1: "(?a ''condition_type'' = Some (PyStr ''total_earned'') \<and> Map.empty ''total_earned'' = None)
         \<or> (?a ''condition_type'' = Some (PyStr ''upgrades_count'') \<and> Map.empty ''upgrades_count'' = None)"
    by simp
  have a2: "?a ''condition_value'' = Some (PyInt 100)" by simp
  have a3: "is_num (PyInt 100)" by simp
  have b1: "(?b ''condition_type'' = Some (PyStr ''total_earned'') \<and> ?p ''total_earned'' = None)
         \<or> (?b ''condition_type'' = Some (PyStr ''upgrades_count'') \<and> ?p ''upgrades_count'' = None)"
    by simp
  have b2: "?b ''condition_value'' = Some (PyFloat 0)" by simp
  have b3: "is_num (PyFloat 0)" by simp
  from missing_field_reads_zero
         [where achievement = ?a and progress_data = Map.empty and v = "PyInt 100", OF a1 a2 a3]
  have 1: "check_achievement_progress Map.empty ?a = Inr False" by simp
  from missing_field_reads_zero
         [where achievement = ?b and progress_data = ?p and v = "PyFloat 0", OF b1 b2 b3]
  have 2: "check_achievement_progress ?p ?b = Inr True" by simp
  from 1 2 show ?thesis by blast
qed

section \<open>Properties of the leaderboard query\<close>

text \<open>
  No row is greater than NULL; the query always has its one row, so \<open>get_user_rank\<close> is
  the count plus one; and the subquery is NULL for a player without a progress row.
\<close>

lemma sql_gt_null: "sql_gt x None = False"
  by (cases x) simp_all

lemma rank_query_row:
  "get_user_rank table uid =
     Inr (PyInt (int (length (filter (\<lambda>r. sql_gt (total_earned r) (subquery_total_earned table uid))
                                table)) + 1))"
  by (simp add: get_user_rank_def fetchone_def rank_query_def dict_item_def)

lemma subquery_absent:
  "uid \<notin> user_id ` set table \<Longrightarrow> subquery_total_earned table uid = None"
proof -
  assume "uid \<notin> user_id ` set table"
  then have "find (\<lambda>r. user_id r = uid) table = None"
    by (auto simp: find_None_iff)
  then show ?thesis by (simp add: subquery_total_earned_def)
qed

text \<open>
  Claim C4 says that the rank of a player without a progress record is absent
  (\<^verbatim>\<open>None\<close>). On the code it is not: \<open>get_user_rank\<close> returns an integer \<open>\<ge> 1\<close> for every table
  and every player id, and for a player without a row in the table it returns 1, since
  the aggregate query yields its row even when no row of the table is counted.
\<close>

theorem rank_never_absent:
  "(\<exists>n. get_user_rank table uid = Inr (PyInt n) \<and> 1 \<le> n)
   \<and> (uid \<notin> user_id ` set table \<longrightarrow> get_user_rank table uid = Inr (PyInt 1))"
proof (intro conjI impI)
  show "\<exists>n. get_user_rank table uid = Inr (PyInt n) \<and> 1 \<le> n"
    by (simp add: rank_query_row)
  show "get_user_rank table uid = Inr (PyInt 1)" if "uid \<notin> user_id ` set table"
    using subquery_absent [OF that] by (simp add: rank_query_row sql_gt_null)
qed

theorem rank_never_absent_witness:
  "2 \<notin> user_id ` set [\<lparr>user_id = 1, total_earned = Some 100\<rparr>]
   \<and> get_user_rank [\<lparr>user_id = 1, total_earned = Some 100\<rparr>] 2 = Inr (PyInt 1)
   \<and> get_user_rank [\<lparr>user_id = 1, total_earned = Some 100\<rparr>] 2 \<noteq> Inr PyNone"
proof -
  have a: "2 \<notin> user_id ` set [\<lparr>user_id = 1, total_earned = Some 100\<rparr>]" by simp
  from rank_never_absent [of "[\<lparr>user_id = 1, total_earned = Some 100\<rparr>]" 2] a
  have 1: "get_user_rank [\<lparr>user_id = 1, total_earned = Some 100\<rparr>] 2 = Inr (PyInt 1)"
    by blast
  then have 2: "get_user_rank [\<lparr>user_id = 1, total_earned = Some 100\<rparr>] 2 \<noteq> Inr PyNone"
    by simp
  from a 1 2 show ?thesis by blast
qed

section \<open>What the engine's operations depend on\<close>








end
